theory Spec2Isabelle
  imports Main
begin

unbundle bit_operations_syntax

section \<open>The dynamic function loader of quasiquotes (\<^verbatim>\<open>quasiquotes/c/_loader.c\<close>)\<close>

text \<open>
  The module has one operation, \<^verbatim>\<open>create_callable\<close>. It parses its arguments, opens a
  shared object with \<^verbatim>\<open>dlopen\<close>, looks up the symbol \<^verbatim>\<open>__qq_methoddef\<close> with
  \<^verbatim>\<open>dlsym\<close> and wraps the address in a builtin-function object with
  \<^verbatim>\<open>PyCFunction_NewEx\<close>. Everything it does is a call of the C library's dynamic
  loader or of the CPython API, so the model is: a process state holding what those two
  libraries keep, a model of each library function that \<^verbatim>\<open>create_callable\<close> calls, and
  \<^verbatim>\<open>create_callable\<close> itself, translated line by line over them with the state passed
  explicitly.
\<close>

subsection \<open>C pointers\<close>

text \<open>A pointer is either \<^verbatim>\<open>NULL\<close> or points to something; the C tests \<^verbatim>\<open>!p\<close> become
  case distinctions on this type.\<close>

datatype 'a ptr = NULL | Ptr 'a

subsection \<open>Python values and exceptions\<close>

text \<open>
  The Python objects that matter here: the values a caller may pass, and the
  builtin-function object (\<^verbatim>\<open>PyCFunctionObject\<close>) that is returned, with its three fields
  \<^verbatim>\<open>m_ml\<close> (address of the \<^verbatim>\<open>PyMethodDef\<close>), \<^verbatim>\<open>m_self\<close> and \<^verbatim>\<open>m_module\<close>
  (references into the object heap, or \<^verbatim>\<open>NULL\<close>). A \<^verbatim>\<open>str\<close> is held as its UTF-8
  encoding, which is what the format unit \<^verbatim>\<open>s\<close> hands to C.
\<close>

datatype pyobj =
    PyNone
  | PyLong int
  | PyUnicode string
  | PyBytes string
  | PyCFunction (m_ml: "nat ptr") (m_self: "nat ptr") (m_module: "nat ptr")

datatype exc =
    PyExc_TypeError
  | PyExc_ValueError
  | PyExc_OSError
  | PyExc_SystemError
  | PyExc_MemoryError

type_synonym pyerr = "exc \<times> string"

subsection \<open>The function descriptor\<close>

text \<open>\<^verbatim>\<open>PyMethodDef\<close>: name, entry point (a code address), calling-convention flags,
  documentation (may be \<^verbatim>\<open>NULL\<close>).\<close>

record PyMethodDef =
  ml_name :: string
  ml_meth :: nat
  ml_flags :: int
  ml_doc :: "string ptr"

text \<open>The flag bits of \<^verbatim>\<open>ml_flags\<close> that select the calling convention
  (\<^verbatim>\<open>methodobject.h\<close>).\<close>

definition METH_VARARGS :: int where "METH_VARARGS = 0x0001"
definition METH_KEYWORDS :: int where "METH_KEYWORDS = 0x0002"
definition METH_NOARGS :: int where "METH_NOARGS = 0x0004"
definition METH_O :: int where "METH_O = 0x0008"
definition METH_FASTCALL :: int where "METH_FASTCALL = 0x0080"
definition METH_METHOD :: int where "METH_METHOD = 0x0200"

subsection \<open>The process state\<close>

text \<open>The \<^verbatim>\<open>mode\<close> argument of \<^verbatim>\<open>dlopen\<close> (\<^verbatim>\<open>dlfcn.h\<close>): lazy or immediate binding.\<close>

datatype dl_mode = RTLD_LAZY | RTLD_NOW

text \<open>The calls of library functions, in the order they are made. \<^verbatim>\<open>dlclose\<close> is the
  loader's release operation.\<close>

datatype event =
    Call_PyArg_ParseTupleAndKeywords
  | Call_dlopen string dl_mode
  | Call_dlsym nat string
  | Call_dlerror
  | Call_dlclose nat
  | Call_PyErr_SetString exc "string ptr"
  | Call_PyCFunction_NewEx "nat ptr" "nat ptr" "nat ptr"

text \<open>
  \<^item> \<open>dl_objects\<close>: what the loader does with a path in a mode: a diagnostic, or the handle
    of the object (the same handle each time, as POSIX has it);
  \<^item> \<open>dl_symbols\<close>: what a lookup of a name in a loaded object gives: a diagnostic when the
    name is not found, else the symbol's value, which can be \<^verbatim>\<open>NULL\<close>;
  \<^item> \<open>dl_memory\<close>: the descriptors in the memory of the loaded objects, by address;
  \<^item> \<open>dl_refcount\<close>: the loader's table of loaded objects, a reference count per handle;
  \<^item> \<open>dl_error\<close>: the diagnostic that the next \<^verbatim>\<open>dlerror()\<close> returns;
  \<^item> \<open>py_error\<close>: the interpreter's error indicator;
  \<^item> \<open>py_heap\<close>: the objects allocated so far; a reference is an index;
  \<^item> \<open>py_capacity\<close>: the number of objects the heap has room for: an allocation fails
    once it is reached;
  \<^item> \<open>py_undefined\<close>: set once a library function is called outside its contract
    (undefined behaviour in C: the process may crash, and what the call returns means
    nothing);
  \<^item> \<open>calls\<close>: the library calls made so far.
\<close>

record process =
  dl_objects :: "string \<Rightarrow> dl_mode \<Rightarrow> string + nat"
  dl_symbols :: "nat \<Rightarrow> string \<Rightarrow> string + nat ptr"
  dl_memory :: "nat \<Rightarrow> PyMethodDef option"
  dl_refcount :: "nat \<Rightarrow> nat"
  dl_error :: "string ptr"
  py_error :: "pyerr option"
  py_heap :: "pyobj list"
  py_capacity :: nat
  py_undefined :: bool
  calls :: "event list"

definition log :: "event \<Rightarrow> process \<Rightarrow> process" where
  "log e s = s\<lparr>calls := calls s @ [e]\<rparr>"

subsection \<open>The dynamic loader (\<^verbatim>\<open>dlfcn.h\<close>)\<close>

text \<open>\<^verbatim>\<open>dlopen\<close>: on failure \<^verbatim>\<open>NULL\<close>, and the diagnostic is kept for \<^verbatim>\<open>dlerror\<close>; on
  success the handle, whose reference count goes up by one. Either way the call replaces
  what was pending for \<^verbatim>\<open>dlerror\<close>: after a success nothing is pending (as in glibc).\<close>

definition dlopen :: "string \<Rightarrow> dl_mode \<Rightarrow> process \<Rightarrow> nat ptr \<times> process" where
  "dlopen filename mode s =
     (let s' = log (Call_dlopen filename mode) s in
      case dl_objects s filename mode of
        Inl diag \<Rightarrow> (NULL, s'\<lparr>dl_error := Ptr diag\<rparr>)
      | Inr h \<Rightarrow>
          (Ptr h, s'\<lparr>dl_refcount := (dl_refcount s)(h := Suc (dl_refcount s h)),
                     dl_error := NULL\<rparr>))"

text \<open>\<^verbatim>\<open>dlsym\<close>: the value of the symbol, with nothing pending for \<^verbatim>\<open>dlerror\<close>;
  \<^verbatim>\<open>NULL\<close> with a diagnostic when it is not found.\<close>

definition dlsym :: "nat \<Rightarrow> string \<Rightarrow> process \<Rightarrow> nat ptr \<times> process" where
  "dlsym handle symbol s =
     (let s' = log (Call_dlsym handle symbol) s in
      case dl_symbols s handle symbol of
        Inl diag \<Rightarrow> (NULL, s'\<lparr>dl_error := Ptr diag\<rparr>)
      | Inr p \<Rightarrow> (p, s'\<lparr>dl_error := NULL\<rparr>))"

text \<open>\<^verbatim>\<open>dlerror\<close>: the pending diagnostic, or \<^verbatim>\<open>NULL\<close>; the call clears it.\<close>

definition dlerror :: "process \<Rightarrow> string ptr \<times> process" where
  "dlerror s = (dl_error s, (log Call_dlerror s)\<lparr>dl_error := NULL\<rparr>)"

subsection \<open>The CPython API\<close>

text \<open>\<^verbatim>\<open>PyErr_SetString\<close> sets the error indicator. Its message must be a C string: with
  \<^verbatim>\<open>NULL\<close> the behaviour is undefined.\<close>

definition PyErr_SetString :: "exc \<Rightarrow> string ptr \<Rightarrow> process \<Rightarrow> process" where
  "PyErr_SetString e msg s =
     (let s' = log (Call_PyErr_SetString e msg) s in
      case msg of
        NULL \<Rightarrow> s'\<lparr>py_undefined := True\<rparr>
      | Ptr m \<Rightarrow> s'\<lparr>py_error := Some (e, m)\<rparr>)"

text \<open>
  \<^verbatim>\<open>PyCFunction_NewEx(ml, self, module)\<close>, which is \<^verbatim>\<open>PyCMethod_New\<close> without a class
  (CPython 3.9 and later):
  \<^verbatim>\<open>
      switch (ml->ml_flags & (METH_VARARGS | METH_FASTCALL | METH_NOARGS |
                              METH_O | METH_KEYWORDS | METH_METHOD)) {
          case METH_VARARGS: case METH_VARARGS | METH_KEYWORDS:
          case METH_FASTCALL: case METH_FASTCALL | METH_KEYWORDS:
          case METH_NOARGS: case METH_O:
          case METH_METHOD | METH_FASTCALL | METH_KEYWORDS:
              break;
          default:
              PyErr_Format(PyExc_SystemError, "%s() method: bad call flags", ml->ml_name);
              return NULL;
      }
      if (ml->ml_flags & METH_METHOD) {
          if (!cls) { PyErr_SetString(PyExc_SystemError, ...); return NULL; }
          ...
      } else {
          op = PyObject_GC_New(PyCFunctionObject, &PyCFunction_Type);
          if (op == NULL) return NULL;
      }
      op->m_ml = ml; op->m_self = self; op->m_module = module;
      return (PyObject *)op;
  \<close>
  It reads the flags and, for the message, the name through \<^verbatim>\<open>ml\<close>: where \<^verbatim>\<open>ml\<close> does
  not point to a descriptor the behaviour is undefined. The allocation fails with a
  \<^verbatim>\<open>MemoryError\<close> when the heap is full.
\<close>

definition call_flags_mask :: int where
  "call_flags_mask =
     METH_VARARGS OR METH_FASTCALL OR METH_NOARGS OR METH_O OR METH_KEYWORDS OR METH_METHOD"

definition call_conventions :: "int list" where
  "call_conventions =
     [METH_VARARGS, METH_VARARGS OR METH_KEYWORDS,
      METH_FASTCALL, METH_FASTCALL OR METH_KEYWORDS,
      METH_NOARGS, METH_O,
      METH_METHOD OR METH_FASTCALL OR METH_KEYWORDS]"

definition PyCFunction_NewEx :: "nat ptr \<Rightarrow> nat ptr \<Rightarrow> nat ptr \<Rightarrow> process \<Rightarrow> nat ptr \<times> process" where
  "PyCFunction_NewEx ml self module s =
     (let s' = log (Call_PyCFunction_NewEx ml self module) s in
      case (case ml of NULL \<Rightarrow> None | Ptr a \<Rightarrow> dl_memory s a) of
        None \<Rightarrow> (NULL, s'\<lparr>py_undefined := True\<rparr>)
      | Some d \<Rightarrow>
          if ml_flags d AND call_flags_mask \<notin> set call_conventions then
            (NULL, s'\<lparr>py_error :=
               Some (PyExc_SystemError, ml_name d @ ''() method: bad call flags'')\<rparr>)
          else if ml_flags d AND METH_METHOD \<noteq> 0 then
            (NULL, s'\<lparr>py_error :=
               Some (PyExc_SystemError, ''attempting to create PyCMethod without a class'')\<rparr>)
          else if py_capacity s \<le> length (py_heap s) then
            (NULL, s'\<lparr>py_error := Some (PyExc_MemoryError, [])\<rparr>)
          else
            (Ptr (length (py_heap s)),
             s'\<lparr>py_heap := py_heap s @ [PyCFunction ml self module]\<rparr>))"

text \<open>
  What a call of a builtin-function object dispatches to: the entry point
  \<^verbatim>\<open>m_ml->ml_meth\<close>, called by the convention \<^verbatim>\<open>m_ml->ml_flags\<close> with \<^verbatim>\<open>m_self\<close> as its
  first argument (\<^verbatim>\<open>PyCFunction_GET_FUNCTION\<close>, \<^verbatim>\<open>PyCFunction_GET_FLAGS\<close> and the
  \<^verbatim>\<open>m_self\<close> field). \<open>None\<close> where the reference is not a builtin-function object over
  a descriptor.
\<close>

definition PyCFunction_GET_FUNCTION :: "process \<Rightarrow> nat \<Rightarrow> nat option" where
  "PyCFunction_GET_FUNCTION s r =
     (if r < length (py_heap s)
      then (case py_heap s ! r of
              PyCFunction (Ptr a) self module \<Rightarrow> map_option ml_meth (dl_memory s a)
            | _ \<Rightarrow> None)
      else None)"

definition PyCFunction_GET_FLAGS :: "process \<Rightarrow> nat \<Rightarrow> int option" where
  "PyCFunction_GET_FLAGS s r =
     (if r < length (py_heap s)
      then (case py_heap s ! r of
              PyCFunction (Ptr a) self module \<Rightarrow> map_option ml_flags (dl_memory s a)
            | _ \<Rightarrow> None)
      else None)"

text \<open>
  Argument parsing. \<^verbatim>\<open>create_callable\<close> calls \<^verbatim>\<open>PyArg_ParseTupleAndKeywords\<close> with the
  format \<^verbatim>\<open>s:create_callable\<close> and one keyword, and the model covers that use: one
  required unit \<^verbatim>\<open>s\<close>, one keyword name. The positional arguments are a tuple, the keyword
  arguments a dictionary with string keys (here an association list, the first binding of
  a key counting) or \<^verbatim>\<open>NULL\<close>. The messages are shortened.
\<close>

definition PyDict_Size :: "(string \<times> pyobj) list \<Rightarrow> nat" where
  "PyDict_Size d = length (remdups (map fst d))"

definition PyDict_GetItemString :: "(string \<times> pyobj) list \<Rightarrow> string \<Rightarrow> pyobj option" where
  "PyDict_GetItemString d k = map_of d k"

text \<open>The unit \<^verbatim>\<open>s\<close>: a \<^verbatim>\<open>str\<close> without embedded null characters.\<close>

fun convert_s :: "pyobj \<Rightarrow> pyerr + string" where
  "convert_s (PyUnicode u) =
     (if CHR 0x00 \<in> set u then Inl (PyExc_ValueError, ''embedded null character'')
      else Inr u)"
| "convert_s _ = Inl (PyExc_TypeError, ''argument 1 must be str'')"

text \<open>The name after the colon of the format, for the messages.\<close>

definition format_fname :: "string \<Rightarrow> string" where
  "format_fname format = drop 1 (dropWhile (\<lambda>c. c \<noteq> CHR '':'') format)"

definition vgetargskeywords ::
  "pyobj list \<Rightarrow> (string \<times> pyobj) list ptr \<Rightarrow> string \<Rightarrow> string \<Rightarrow> pyerr + string" where
  "vgetargskeywords args keywords format keyword =
     (let fname = format_fname format;
          nargs = length args;
          nkeywords = (case keywords of NULL \<Rightarrow> 0 | Ptr d \<Rightarrow> PyDict_Size d)
      in
      if nargs + nkeywords > 1 then
        Inl (PyExc_TypeError, fname @ ''() takes at most 1 argument'')
      else
        (case (if nkeywords > 0
               then (case keywords of NULL \<Rightarrow> None | Ptr d \<Rightarrow> PyDict_GetItemString d keyword)
               else None) of
           Some current_arg \<Rightarrow>
             if 0 < nargs then
               Inl (PyExc_TypeError, ''Argument given by name and position'')
             else convert_s current_arg
         | None \<Rightarrow>
             if 0 < nargs then convert_s (args ! 0)
             else Inl (PyExc_TypeError, ''Required argument '' @ keyword @ '' (pos 1) not found'')))"

text \<open>The API function returns 0 with the error indicator set, or 1 with the C string
  stored through the output pointer: here \<^verbatim>\<open>NULL\<close>, or the string. A keyword list
  that does not agree with the format is a misuse of the function.\<close>

fun PyArg_ParseTupleAndKeywords ::
  "pyobj list \<Rightarrow> (string \<times> pyobj) list ptr \<Rightarrow> string \<Rightarrow> string list \<Rightarrow> process
     \<Rightarrow> string ptr \<times> process" where
  "PyArg_ParseTupleAndKeywords args keywords format [keyword] s =
     (let s' = log Call_PyArg_ParseTupleAndKeywords s in
      case vgetargskeywords args keywords format keyword of
        Inl e \<Rightarrow> (NULL, s'\<lparr>py_error := Some e\<rparr>)
      | Inr filename \<Rightarrow> (Ptr filename, s'))"
| "PyArg_ParseTupleAndKeywords args keywords format kwlist s =
     (NULL, (log Call_PyArg_ParseTupleAndKeywords s)\<lparr>py_undefined := True\<rparr>)"

subsection \<open>\<^verbatim>\<open>create_callable\<close>\<close>

text \<open>
  \<^verbatim>\<open>
  static PyObject *
  create_callable(PyObject *self, PyObject *args, PyObject *kwargs)
  {
      char* keywords[] = {"filename", NULL};
      ...
      if (!(PyArg_ParseTupleAndKeywords(args, kwargs, "s:create_callable",
                                        keywords, &filename))) {
          return NULL;
      }
      if (!(sohandle = dlopen(filename, RTLD_LAZY))) {
          PyErr_SetString(PyExc_OSError, dlerror());
          return NULL;
      }
      if (!(qq_methoddef = dlsym(sohandle, "__qq_methoddef"))) {
          PyErr_SetString(PyExc_OSError, dlerror());
          return NULL;
      }
      return PyCFunction_NewEx(qq_methoddef, NULL, NULL);
  }
  \<close>
  The result is the returned \<^verbatim>\<open>PyObject *\<close> (a reference into \<open>py_heap\<close>, or
  \<^verbatim>\<open>NULL\<close> for a raised exception) and the process state after the call.
\<close>

definition create_callable ::
  "pyobj \<Rightarrow> pyobj list \<Rightarrow> (string \<times> pyobj) list ptr \<Rightarrow> process \<Rightarrow> nat ptr \<times> process" where
  "create_callable self args kwargs s0 =
     (let keywords = [''filename''] in
      case PyArg_ParseTupleAndKeywords args kwargs ''s:create_callable'' keywords s0 of
        (NULL, s1) \<Rightarrow> (NULL, s1)
      | (Ptr filename, s1) \<Rightarrow>
          (case dlopen filename RTLD_LAZY s1 of
             (NULL, s2) \<Rightarrow>
               (case dlerror s2 of (msg, s3) \<Rightarrow> (NULL, PyErr_SetString PyExc_OSError msg s3))
           | (Ptr sohandle, s2) \<Rightarrow>
               (case dlsym sohandle ''__qq_methoddef'' s2 of
                  (NULL, s3) \<Rightarrow>
                    (case dlerror s3 of (msg, s4) \<Rightarrow>
                       (NULL, PyErr_SetString PyExc_OSError msg s4))
                | (Ptr qq_methoddef, s3) \<Rightarrow>
                    PyCFunction_NewEx (Ptr qq_methoddef) NULL NULL s3)))"

text \<open>The filename that \<^verbatim>\<open>create_callable\<close> gets out of its arguments, or the error.\<close>

abbreviation parsed_filename :: "pyobj list \<Rightarrow> (string \<times> pyobj) list ptr \<Rightarrow> pyerr + string" where
  "parsed_filename args kwargs \<equiv> vgetargskeywords args kwargs ''s:create_callable'' ''filename''"

subsection \<open>Reading the state after a call\<close>

text \<open>The library calls added between two states.\<close>

definition new_calls :: "process \<Rightarrow> process \<Rightarrow> event list" where
  "new_calls s s' = drop (length (calls s)) (calls s')"

fun is_dlopen :: "event \<Rightarrow> bool" where
  "is_dlopen (Call_dlopen f m) = True"
| "is_dlopen _ = False"

fun is_dlsym :: "event \<Rightarrow> bool" where
  "is_dlsym (Call_dlsym h n) = True"
| "is_dlsym _ = False"

fun is_dlclose :: "event \<Rightarrow> bool" where
  "is_dlclose (Call_dlclose h) = True"
| "is_dlclose _ = False"

text \<open>
  The argument shape as the specification words it: one parameter \<^verbatim>\<open>filename\<close>, a
  string, given as the first positional argument or as the named argument
  \<^verbatim>\<open>filename\<close>, and nothing else. The result is that string, or \<open>None\<close> for any other
  shape.
\<close>

definition spec_filename :: "pyobj list \<Rightarrow> (string \<times> pyobj) list ptr \<Rightarrow> string option" where
  "spec_filename args kwargs =
     (let named = remdups (map fst (case kwargs of NULL \<Rightarrow> [] | Ptr d \<Rightarrow> d)) in
      case args of
        [] \<Rightarrow>
          (if named = [''filename'']
           then (case map_of (case kwargs of NULL \<Rightarrow> [] | Ptr d \<Rightarrow> d) ''filename'' of
                   Some (PyUnicode u) \<Rightarrow> Some u
                 | _ \<Rightarrow> None)
           else None)
      | [a] \<Rightarrow> (if named = [] then (case a of PyUnicode u \<Rightarrow> Some u | _ \<Rightarrow> None) else None)
      | _ \<Rightarrow> None)"

subsection \<open>A process to run the operation in\<close>

text \<open>
  The loader knows two objects. \<^verbatim>\<open>libfoo.so\<close> (handle 1) exports \<^verbatim>\<open>__qq_methoddef\<close>
  at address 4096, the descriptor of a function \<^verbatim>\<open>foo\<close> without arguments
  (\<^verbatim>\<open>METH_NOARGS\<close> is 4) at code address 8192. \<^verbatim>\<open>libbar.so\<close> (handle 2) exports nothing.
  No other path can be opened. The heap has room for 16 objects.
\<close>

definition libfoo_process :: process where
  "libfoo_process =
     \<lparr>dl_objects = (\<lambda>f m.
        if f = ''libfoo.so'' then Inr 1
        else if f = ''libbar.so'' then Inr 2
        else Inl (f @ '': cannot open shared object file'')),
      dl_symbols = (\<lambda>h n.
        if h = 1 \<and> n = ''__qq_methoddef'' then Inr (Ptr 4096)
        else Inl (''undefined symbol: '' @ n)),
      dl_memory = (\<lambda>a.
        if a = 4096
        then Some \<lparr>ml_name = ''foo'', ml_meth = 8192, ml_flags = 4, ml_doc = NULL\<rparr>
        else None),
      dl_refcount = (\<lambda>h. 0),
      dl_error = NULL,
      py_error = None,
      py_heap = [],
      py_capacity = 16,
      py_undefined = False,
      calls = []\<rparr>"

text \<open>The same process, but the descriptor that \<^verbatim>\<open>libfoo.so\<close> exports has the flags 0,
  which name no calling convention.\<close>

definition badflags_process :: process where
  "badflags_process =
     libfoo_process\<lparr>dl_memory := (\<lambda>a.
        if a = 4096
        then Some \<lparr>ml_name = ''foo'', ml_meth = 8192, ml_flags = 0, ml_doc = NULL\<rparr>
        else None)\<rparr>"

text \<open>The callable a descriptor can be wrapped in: its flags select a calling convention
  that needs no class.\<close>

definition callable_flags :: "int \<Rightarrow> bool" where
  "callable_flags flags =
     (flags AND call_flags_mask \<in> set call_conventions \<and> flags AND METH_METHOD = 0)"

section \<open>What each path of \<^verbatim>\<open>create_callable\<close> does\<close>

lemma create_callable_bad_arguments:
  assumes "parsed_filename args kwargs = Inl e"
  shows "create_callable self args kwargs s =
           (NULL, s\<lparr>py_error := Some e, calls := calls s @ [Call_PyArg_ParseTupleAndKeywords]\<rparr>)"
  using assms by (simp add: create_callable_def log_def)

lemma create_callable_open_failed:
  assumes "parsed_filename args kwargs = Inr filename"
    and "dl_objects s filename RTLD_LAZY = Inl diag"
  shows "create_callable self args kwargs s =
           (NULL, s\<lparr>dl_error := NULL, py_error := Some (PyExc_OSError, diag),
                    calls := calls s @ [Call_PyArg_ParseTupleAndKeywords,
                      Call_dlopen filename RTLD_LAZY, Call_dlerror,
                      Call_PyErr_SetString PyExc_OSError (Ptr diag)]\<rparr>)"
  using assms by (simp add: create_callable_def log_def dlopen_def dlerror_def PyErr_SetString_def)

lemma create_callable_symbol_failed:
  assumes "parsed_filename args kwargs = Inr filename"
    and "dl_objects s filename RTLD_LAZY = Inr h"
    and "dl_symbols s h ''__qq_methoddef'' = Inl diag"
  shows "create_callable self args kwargs s =
           (NULL, s\<lparr>dl_refcount := (dl_refcount s)(h := Suc (dl_refcount s h)),
                    dl_error := NULL, py_error := Some (PyExc_OSError, diag),
                    calls := calls s @ [Call_PyArg_ParseTupleAndKeywords,
                      Call_dlopen filename RTLD_LAZY, Call_dlsym h ''__qq_methoddef'',
                      Call_dlerror, Call_PyErr_SetString PyExc_OSError (Ptr diag)]\<rparr>)"
  using assms by (simp add: create_callable_def log_def dlopen_def dlsym_def dlerror_def PyErr_SetString_def)

lemma create_callable_resolved:
  assumes "parsed_filename args kwargs = Inr filename"
    and "dl_objects s filename RTLD_LAZY = Inr h"
    and "dl_symbols s h ''__qq_methoddef'' = Inr (Ptr a)"
  shows "create_callable self args kwargs s =
           PyCFunction_NewEx (Ptr a) NULL NULL
             (s\<lparr>dl_refcount := (dl_refcount s)(h := Suc (dl_refcount s h)),
                calls := calls s @ [Call_PyArg_ParseTupleAndKeywords,
                  Call_dlopen filename RTLD_LAZY, Call_dlsym h ''__qq_methoddef''],
                dl_error := NULL\<rparr>)"
  using assms by (simp add: create_callable_def log_def dlopen_def dlsym_def)

text \<open>The outcomes of \<^verbatim>\<open>PyCFunction_NewEx\<close>.\<close>

lemma PyCFunction_NewEx_frame:
  "calls (snd (PyCFunction_NewEx ml self module s)) =
     calls s @ [Call_PyCFunction_NewEx ml self module]"
  "dl_refcount (snd (PyCFunction_NewEx ml self module s)) = dl_refcount s"
  "dl_memory (snd (PyCFunction_NewEx ml self module s)) = dl_memory s"
  "dl_error (snd (PyCFunction_NewEx ml self module s)) = dl_error s"
  by (simp_all add: PyCFunction_NewEx_def log_def Let_def split: option.splits ptr.splits)

lemma PyCFunction_NewEx_built:
  assumes "dl_memory s a = Some d" and "callable_flags (ml_flags d)"
    and "length (py_heap s) < py_capacity s"
  shows "PyCFunction_NewEx (Ptr a) self module s =
           (Ptr (length (py_heap s)),
            s\<lparr>py_heap := py_heap s @ [PyCFunction (Ptr a) self module],
              calls := calls s @ [Call_PyCFunction_NewEx (Ptr a) self module]\<rparr>)"
  using assms by (simp add: PyCFunction_NewEx_def callable_flags_def log_def)

lemma PyCFunction_NewEx_bad_flags:
  assumes "dl_memory s a = Some d" and "callable_flags (ml_flags d) = False"
  shows "fst (PyCFunction_NewEx (Ptr a) self module s) = NULL"
    and "map_option fst (py_error (snd (PyCFunction_NewEx (Ptr a) self module s))) =
           Some PyExc_SystemError"
    and "py_heap (snd (PyCFunction_NewEx (Ptr a) self module s)) = py_heap s"
    and "py_undefined (snd (PyCFunction_NewEx (Ptr a) self module s)) = py_undefined s"
proof -
  from assms(2)
  have "ml_flags d AND call_flags_mask \<notin> set call_conventions \<or> ml_flags d AND METH_METHOD \<noteq> 0"
    by (auto simp: callable_flags_def)
  then show "fst (PyCFunction_NewEx (Ptr a) self module s) = NULL"
    and "map_option fst (py_error (snd (PyCFunction_NewEx (Ptr a) self module s))) =
           Some PyExc_SystemError"
    and "py_heap (snd (PyCFunction_NewEx (Ptr a) self module s)) = py_heap s"
    and "py_undefined (snd (PyCFunction_NewEx (Ptr a) self module s)) = py_undefined s"
    using assms(1) by (auto simp: PyCFunction_NewEx_def log_def Let_def)
qed

lemma PyCFunction_NewEx_no_memory:
  assumes "dl_memory s a = Some d" and "callable_flags (ml_flags d)"
    and "py_capacity s \<le> length (py_heap s)"
  shows "PyCFunction_NewEx (Ptr a) self module s =
           (NULL, s\<lparr>py_error := Some (PyExc_MemoryError, []),
                    calls := calls s @ [Call_PyCFunction_NewEx (Ptr a) self module]\<rparr>)"
  using assms by (simp add: PyCFunction_NewEx_def callable_flags_def log_def)

lemma PyCFunction_NewEx_no_descriptor:
  assumes "dl_memory s a = None"
  shows "PyCFunction_NewEx (Ptr a) self module s =
           (NULL, s\<lparr>py_undefined := True,
                    calls := calls s @ [Call_PyCFunction_NewEx (Ptr a) self module]\<rparr>)"
  using assms by (simp add: PyCFunction_NewEx_def log_def)

lemma create_callable_loaded:
  assumes "parsed_filename args kwargs = Inr filename"
    and "dl_objects s filename RTLD_LAZY = Inr h"
    and "dl_symbols s h ''__qq_methoddef'' = Inr (Ptr a)"
    and "dl_memory s a = Some d" and "callable_flags (ml_flags d)"
    and "length (py_heap s) < py_capacity s"
  shows "create_callable self args kwargs s =
           (Ptr (length (py_heap s)),
            s\<lparr>dl_refcount := (dl_refcount s)(h := Suc (dl_refcount s h)),
              dl_error := NULL,
              py_heap := py_heap s @ [PyCFunction (Ptr a) NULL NULL],
              calls := calls s @ [Call_PyArg_ParseTupleAndKeywords,
                Call_dlopen filename RTLD_LAZY, Call_dlsym h ''__qq_methoddef'',
                Call_PyCFunction_NewEx (Ptr a) NULL NULL]\<rparr>)"
  using assms(4-6)
  by (simp add: create_callable_resolved [OF assms(1-3)] PyCFunction_NewEx_built [where d = d])

lemma convert_s_Inr: "convert_s a = Inr u \<longleftrightarrow> a = PyUnicode u \<and> CHR 0x00 \<notin> set u"
  by (cases a) auto

lemma length_remdups_one:
  "length (remdups ks) = Suc 0 \<Longrightarrow> k \<in> set ks \<Longrightarrow> remdups ks = [k]"
proof -
  assume l: "length (remdups ks) = Suc 0" and k: "k \<in> set ks"
  from l obtain x where x: "remdups ks = [x]"
    by (cases "remdups ks") auto
  from k have "k \<in> set (remdups ks)" by simp
  with x show ?thesis by simp
qed

lemma PyDict_one_key:
  "PyDict_Size d = Suc 0 \<and> PyDict_GetItemString d k = Some v
     \<longleftrightarrow> remdups (map fst d) = [k] \<and> map_of d k = Some v"
proof
  assume a: "PyDict_Size d = Suc 0 \<and> PyDict_GetItemString d k = Some v"
  then have "k \<in> set (map fst d)"
    by (auto simp: PyDict_GetItemString_def dest: map_of_SomeD intro: rev_image_eqI)
  with a show "remdups (map fst d) = [k] \<and> map_of d k = Some v"
    by (simp add: PyDict_Size_def PyDict_GetItemString_def length_remdups_one)
next
  assume "remdups (map fst d) = [k] \<and> map_of d k = Some v"
  then show "PyDict_Size d = Suc 0 \<and> PyDict_GetItemString d k = Some v"
    by (simp add: PyDict_Size_def PyDict_GetItemString_def)
qed

lemma remdups_single_map_of:
  "remdups (map fst d) = [k] \<Longrightarrow> map_of d k \<noteq> None"
proof -
  assume "remdups (map fst d) = [k]"
  then have "set (remdups (map fst d)) = {k}" by simp
  then have "k \<in> fst ` set d" by auto
  then show ?thesis by (simp add: map_of_eq_None_iff)
qed

lemma parsed_filename_no_keywords:
  assumes "(case kwargs of NULL \<Rightarrow> [] | Ptr d \<Rightarrow> d) = []"
  shows "parsed_filename args kwargs = Inr u \<longleftrightarrow> args = [PyUnicode u] \<and> CHR 0x00 \<notin> set u"
proof (cases args)
  case Nil
  with assms show ?thesis
    by (auto simp: vgetargskeywords_def PyDict_Size_def split: ptr.splits)
next
  case (Cons a as)
  with assms show ?thesis
    by (cases as) (auto simp: vgetargskeywords_def PyDict_Size_def convert_s_Inr split: ptr.splits)
qed

lemma parsed_filename_keywords:
  assumes "kwargs = Ptr d" and "d \<noteq> []"
  shows "parsed_filename args kwargs = Inr u \<longleftrightarrow>
           args = [] \<and> remdups (map fst d) = [''filename''] \<and>
           map_of d ''filename'' = Some (PyUnicode u) \<and> CHR 0x00 \<notin> set u"
proof -
  from assms(2) have pos: "0 < PyDict_Size d"
    by (simp add: PyDict_Size_def)
  show ?thesis
  proof (cases "args = [] \<and> PyDict_Size d = Suc 0")
    case False
    with pos have many: "length args + PyDict_Size d > 1" 
      by (cases args) auto
    from False have "\<not> (args = [] \<and> remdups (map fst d) = [''filename''])"
      by (auto simp: PyDict_Size_def)
    with many assms(1) show ?thesis
      by (auto simp: vgetargskeywords_def)
  next
    case True
    show ?thesis
    proof (cases "PyDict_GetItemString d ''filename''")
      case None
      then have "remdups (map fst d) \<noteq> [''filename'']"
        using remdups_single_map_of [of d "''filename''"] by (auto simp: PyDict_GetItemString_def)
      with None True assms(1) show ?thesis
        by (auto simp: vgetargskeywords_def)
    next
      case (Some v)
      with True have "remdups (map fst d) = [''filename''] \<and> map_of d ''filename'' = Some v"
        using PyDict_one_key [of d "''filename''" v] by simp
      with Some True assms(1) show ?thesis
        by (auto simp: vgetargskeywords_def convert_s_Inr)
    qed
  qed
qed

lemma parsed_filename_iff:
  "parsed_filename args kwargs = Inr u \<longleftrightarrow> spec_filename args kwargs = Some u \<and> CHR 0x00 \<notin> set u"
proof (cases "(case kwargs of NULL \<Rightarrow> [] | Ptr d \<Rightarrow> d) = []")
  case True
  have "spec_filename args kwargs = Some u \<longleftrightarrow> args = [PyUnicode u]"
    using True by (auto simp: spec_filename_def Let_def split: list.splits pyobj.splits)
  with parsed_filename_no_keywords [OF True] show ?thesis by simp
next
  case False
  then obtain d where d: "kwargs = Ptr d" "d \<noteq> []"
    by (cases kwargs) auto
  have "spec_filename args kwargs = Some u \<longleftrightarrow>
          args = [] \<and> remdups (map fst d) = [''filename''] \<and> map_of d ''filename'' = Some (PyUnicode u)"
    using d by (auto simp: spec_filename_def Let_def split: list.splits pyobj.splits option.splits if_splits)
  with parsed_filename_keywords [OF d] show ?thesis by auto
qed


text \<open>A symbol whose value is \<^verbatim>\<open>NULL\<close> is taken for a failed lookup, although the
  loader has reported no error: \<^verbatim>\<open>dlerror()\<close> returns \<^verbatim>\<open>NULL\<close>, which is passed to
  \<^verbatim>\<open>PyErr_SetString\<close>, and the behaviour is undefined from there.\<close>

lemma create_callable_symbol_null:
  assumes "parsed_filename args kwargs = Inr filename"
    and "dl_objects s filename RTLD_LAZY = Inr h"
    and "dl_symbols s h ''__qq_methoddef'' = Inr NULL"
  shows "create_callable self args kwargs s =
           (NULL,
            s\<lparr>dl_refcount := (dl_refcount s)(h := Suc (dl_refcount s h)),
              dl_error := NULL, py_undefined := True,
              calls := calls s @ [Call_PyArg_ParseTupleAndKeywords,
                Call_dlopen filename RTLD_LAZY, Call_dlsym h ''__qq_methoddef'',
                Call_dlerror, Call_PyErr_SetString PyExc_OSError NULL]\<rparr>)"
  using assms
  by (simp add: create_callable_def log_def dlopen_def dlsym_def dlerror_def PyErr_SetString_def)

lemma create_callable_paths [case_names bad_arguments open_failed symbol_failed symbol_null resolved]:
  obtains
    e where "parsed_filename args kwargs = Inl e"
  | filename diag where "parsed_filename args kwargs = Inr filename"
      and "dl_objects s filename RTLD_LAZY = Inl diag"
  | filename h diag where "parsed_filename args kwargs = Inr filename"
      and "dl_objects s filename RTLD_LAZY = Inr h"
      and "dl_symbols s h ''__qq_methoddef'' = Inl diag"
  | filename h where "parsed_filename args kwargs = Inr filename"
      and "dl_objects s filename RTLD_LAZY = Inr h"
      and "dl_symbols s h ''__qq_methoddef'' = Inr NULL"
  | filename h a where "parsed_filename args kwargs = Inr filename"
      and "dl_objects s filename RTLD_LAZY = Inr h"
      and "dl_symbols s h ''__qq_methoddef'' = Inr (Ptr a)"
proof (cases "parsed_filename args kwargs")
  case (Inl e)
  then show ?thesis by (rule that(1))
next
  case parsed: (Inr filename)
  show ?thesis
  proof (cases "dl_objects s filename RTLD_LAZY")
    case (Inl diag)
    with parsed show ?thesis by (rule that(2))
  next
    case opened: (Inr h)
    show ?thesis
    proof (cases "dl_symbols s h ''__qq_methoddef''")
      case (Inl diag)
      with parsed opened show ?thesis by (rule that(3))
    next
      case (Inr p)
      with parsed opened show ?thesis
        by (cases p) (auto intro: that(4) that(5))
    qed
  qed
qed

section \<open>The arguments that are accepted\<close>

lemma convert_s_not_str: "(\<forall>u. a \<noteq> PyUnicode u) \<Longrightarrow> \<exists>m. convert_s a = Inl (PyExc_TypeError, m)"
  by (cases a) auto

lemma spec_filename_SomeD:
  assumes "spec_filename args kwargs = Some u"
  shows "(args = [PyUnicode u] \<and> (case kwargs of NULL \<Rightarrow> [] | Ptr d \<Rightarrow> d) = []) \<or>
         (args = [] \<and> (\<exists>d. kwargs = Ptr d \<and> remdups (map fst d) = [''filename''] \<and>
            map_of d ''filename'' = Some (PyUnicode u)))"
  using assms
  by (cases kwargs)
     (auto simp: spec_filename_def Let_def split: list.splits pyobj.splits option.splits if_splits)

lemma parsed_filename_accepted:
  assumes "spec_filename args kwargs = Some u"
  shows "parsed_filename args kwargs = convert_s (PyUnicode u)"
proof -
  from spec_filename_SomeD [OF assms] show ?thesis
  proof
    assume "args = [PyUnicode u] \<and> (case kwargs of NULL \<Rightarrow> [] | Ptr d \<Rightarrow> d) = []"
    then show ?thesis
      by (auto simp: vgetargskeywords_def PyDict_Size_def split: ptr.splits)
  next
    assume "args = [] \<and> (\<exists>d. kwargs = Ptr d \<and> remdups (map fst d) = [''filename''] \<and>
      map_of d ''filename'' = Some (PyUnicode u))"
    then show ?thesis
      by (auto simp: vgetargskeywords_def PyDict_Size_def PyDict_GetItemString_def)
  qed
qed

lemma parsed_filename_rejected:
  assumes "spec_filename args kwargs = None"
  shows "\<exists>m. parsed_filename args kwargs = Inl (PyExc_TypeError, m)"
proof (cases "(case kwargs of NULL \<Rightarrow> [] | Ptr d \<Rightarrow> d) = []")
  case True
  then have nk: "(case kwargs of NULL \<Rightarrow> 0 | Ptr d \<Rightarrow> PyDict_Size d) = 0"
    by (auto simp: PyDict_Size_def split: ptr.splits)
  show ?thesis
  proof (cases args)
    case Nil
    with nk show ?thesis by (simp add: vgetargskeywords_def)
  next
    case (Cons a as)
    show ?thesis
    proof (cases as)
      case Nil
      with Cons assms True have "\<forall>u. a \<noteq> PyUnicode u"
        by (auto simp: spec_filename_def)
      from convert_s_not_str [OF this] Cons Nil nk show ?thesis
        by (simp add: vgetargskeywords_def)
    next
      case (Cons b bs)
      with \<open>args = a # as\<close> nk show ?thesis by (simp add: vgetargskeywords_def)
    qed
  qed
next
  case False
  then obtain d where d: "kwargs = Ptr d" "d \<noteq> []"
    by (cases kwargs) auto
  then have pos: "0 < PyDict_Size d"
    by (simp add: PyDict_Size_def)
  show ?thesis
  proof (cases "args = [] \<and> PyDict_Size d = Suc 0")
    case False
    with pos have "length args + PyDict_Size d > 1"
      by (cases args) auto
    with d show ?thesis by (simp add: vgetargskeywords_def)
  next
    case True
    show ?thesis
    proof (cases "PyDict_GetItemString d ''filename''")
      case None
      with True d show ?thesis by (simp add: vgetargskeywords_def)
    next
      case (Some v)
      with True have k: "remdups (map fst d) = [''filename''] \<and> map_of d ''filename'' = Some v"
        using PyDict_one_key [of d "''filename''" v] by simp
      with assms True d have "\<forall>u. v \<noteq> PyUnicode u"
        by (auto simp: spec_filename_def)
      from convert_s_not_str [OF this] Some True d show ?thesis
        by (simp add: vgetargskeywords_def)
    qed
  qed
qed

section \<open>Runs in the example process\<close>

lemma libfoo_positional:
  "parsed_filename [PyUnicode ''libfoo.so''] NULL = Inr ''libfoo.so''"
  by (simp add: vgetargskeywords_def)


lemma libbar_positional:
  "parsed_filename [PyUnicode ''libbar.so''] NULL = Inr ''libbar.so''"
  by (simp add: vgetargskeywords_def)

lemma libfoo_opens: "dl_objects libfoo_process ''libfoo.so'' RTLD_LAZY = Inr 1"
  by (simp add: libfoo_process_def)

lemma libbar_opens: "dl_objects libfoo_process ''libbar.so'' RTLD_LAZY = Inr 2"
  by (simp add: libfoo_process_def)

lemma libfoo_symbol: "dl_symbols libfoo_process 1 ''__qq_methoddef'' = Inr (Ptr 4096)"
  by (simp add: libfoo_process_def)

lemma libbar_symbol:
  "dl_symbols libfoo_process 2 ''__qq_methoddef'' = Inl ''undefined symbol: __qq_methoddef''"
  by (simp add: libfoo_process_def)

lemma libfoo_process_fields:
  "py_heap libfoo_process = []" "py_error libfoo_process = None"
  "dl_refcount libfoo_process h = 0" "calls libfoo_process = []"
  "dl_error libfoo_process = NULL" "py_undefined libfoo_process = False"
  by (simp_all add: libfoo_process_def)

lemma METH_defs:
  "METH_VARARGS = 1" "METH_KEYWORDS = 2" "METH_NOARGS = 4" "METH_O = 8"
  "METH_FASTCALL = 128" "METH_METHOD = 512"
  by (simp_all add: METH_VARARGS_def METH_KEYWORDS_def METH_NOARGS_def METH_O_def
      METH_FASTCALL_def METH_METHOD_def)

lemma libfoo_descriptor:
  "dl_memory libfoo_process 4096 =
     Some \<lparr>ml_name = ''foo'', ml_meth = 8192, ml_flags = 4, ml_doc = NULL\<rparr>"
  "callable_flags 4"
  "py_capacity libfoo_process = 16"
  by (simp_all add: libfoo_process_def callable_flags_def call_flags_mask_def
      call_conventions_def METH_defs)

lemma badflags_process_fields:
  "dl_objects badflags_process = dl_objects libfoo_process"
  "dl_symbols badflags_process = dl_symbols libfoo_process"
  "py_heap badflags_process = []" "calls badflags_process = []"
  "dl_memory badflags_process 4096 =
     Some \<lparr>ml_name = ''foo'', ml_meth = 8192, ml_flags = 0, ml_doc = NULL\<rparr>"
  "callable_flags 0 = False"
  by (simp_all add: badflags_process_def libfoo_process_def callable_flags_def
      call_flags_mask_def call_conventions_def METH_defs)

lemma no_arguments:
  "parsed_filename [] NULL =
     Inl (PyExc_TypeError, ''Required argument filename (pos 1) not found'')"
  by (simp add: vgetargskeywords_def)

lemma not_a_string:
  "parsed_filename [PyLong 7] NULL = Inl (PyExc_TypeError, ''argument 1 must be str'')"
  by (simp add: vgetargskeywords_def)

lemma unexpected_argument:
  "parsed_filename [PyUnicode ''libfoo.so''] (Ptr [(''mode'', PyLong 1)]) =
     Inl (PyExc_TypeError, ''create_callable() takes at most 1 argument'')"
  by (simp add: vgetargskeywords_def PyDict_Size_def format_fname_def)

lemma spec_filename_examples:
  "spec_filename [PyUnicode ''libfoo.so''] NULL = Some ''libfoo.so''"
  "spec_filename [] (Ptr [(''filename'', PyUnicode ''libfoo.so'')]) = Some ''libfoo.so''"
  "spec_filename [PyUnicode ''libfoo.so'', PyUnicode ''libbar.so''] NULL = None"
  "spec_filename [PyBytes ''libfoo.so''] NULL = None"
  "spec_filename [] (Ptr [(''path'', PyUnicode ''libfoo.so'')]) = None"
  "spec_filename [] NULL = None"
  "spec_filename [PyUnicode [CHR ''a'', CHR 0x00]] NULL = Some [CHR ''a'', CHR 0x00]"
  by (simp_all add: spec_filename_def)

section \<open>The claims\<close>







text \<open>
  C4, as stated, has every call open the named object. A call whose arguments do not
  parse opens nothing: with a \<^verbatim>\<open>bytes\<close> object for the name the call fails, the
  argument parsing is its only library call and the loader's table is as before.
\<close>

theorem create_callable_opens_every_call_counterexample:
  "spec_filename [PyBytes ''libfoo.so''] NULL = None \<and>
   fst (create_callable PyNone [PyBytes ''libfoo.so''] NULL libfoo_process) = NULL \<and>
   new_calls libfoo_process (snd (create_callable PyNone [PyBytes ''libfoo.so''] NULL
     libfoo_process)) = [Call_PyArg_ParseTupleAndKeywords] \<and>
   dl_refcount (snd (create_callable PyNone [PyBytes ''libfoo.so''] NULL libfoo_process)) =
     dl_refcount libfoo_process"
proof -
  have "parsed_filename [PyBytes ''libfoo.so''] NULL =
      Inl (PyExc_TypeError, ''argument 1 must be str'')"
    by (simp add: vgetargskeywords_def)
  from create_callable_bad_arguments [OF this] show ?thesis
    by (simp add: new_calls_def spec_filename_examples)
qed

text \<open>
  C4, amended. Every call of \<^verbatim>\<open>create_callable\<close> whose arguments parse opens the named
  shared object for lazy symbol resolution: it makes exactly one \<^verbatim>\<open>dlopen\<close>, of that
  file and in mode \<^verbatim>\<open>RTLD_LAZY\<close>, and what follows is what the loader does with the file
  in that mode. Where the loader gives a handle, the reference count of that handle, and of
  no other, is one higher at return and the symbol is looked up in that handle; where it
  gives a diagnostic, the call fails with that diagnostic and the loader's table is as
  before.
\<close>

theorem create_callable_opens_lazily:
  assumes "parsed_filename args kwargs = Inr filename"
  shows "filter is_dlopen (new_calls s (snd (create_callable self args kwargs s))) =
           [Call_dlopen filename RTLD_LAZY] \<and>
         (\<forall>h. dl_objects s filename RTLD_LAZY = Inr h \<longrightarrow>
            dl_refcount (snd (create_callable self args kwargs s)) =
              (dl_refcount s)(h := Suc (dl_refcount s h)) \<and>
            take 3 (new_calls s (snd (create_callable self args kwargs s))) =
              [Call_PyArg_ParseTupleAndKeywords, Call_dlopen filename RTLD_LAZY,
               Call_dlsym h ''__qq_methoddef'']) \<and>
         (\<forall>diag. dl_objects s filename RTLD_LAZY = Inl diag \<longrightarrow>
            fst (create_callable self args kwargs s) = NULL \<and>
            py_error (snd (create_callable self args kwargs s)) = Some (PyExc_OSError, diag) \<and>
            dl_refcount (snd (create_callable self args kwargs s)) = dl_refcount s)"
proof (cases rule: create_callable_paths [where args = args and kwargs = kwargs and s = s])
  case (bad_arguments e)
  with assms show ?thesis by simp
next
  case (open_failed f diag)
  with assms show ?thesis
    by (simp add: create_callable_open_failed [OF open_failed] new_calls_def)
next
  case (symbol_failed f h diag)
  with assms show ?thesis
    by (simp add: create_callable_symbol_failed [OF symbol_failed] new_calls_def)
next
  case (symbol_null f h)
  with assms show ?thesis
    by (simp add: create_callable_symbol_null [OF symbol_null] new_calls_def)
next
  case (resolved f h a)
  with assms show ?thesis
    by (simp add: create_callable_resolved [OF resolved] PyCFunction_NewEx_frame new_calls_def)
qed

theorem create_callable_opens_lazily_witness:
  "parsed_filename [PyUnicode ''libfoo.so''] NULL = Inr ''libfoo.so'' \<and>
   dl_objects libfoo_process ''libfoo.so'' RTLD_LAZY = Inr 1 \<and>
   filter is_dlopen (new_calls libfoo_process
      (snd (create_callable PyNone [PyUnicode ''libfoo.so''] NULL libfoo_process))) =
     [Call_dlopen ''libfoo.so'' RTLD_LAZY] \<and>
   dl_refcount (snd (create_callable PyNone [PyUnicode ''libfoo.so''] NULL libfoo_process)) 1 = 1 \<and>
   dl_refcount (snd (create_callable PyNone [PyUnicode ''libfoo.so''] NULL libfoo_process)) 2 = 0"
  using create_callable_opens_lazily [OF libfoo_positional, of libfoo_process PyNone]
    libfoo_positional libfoo_opens
  by (simp add: libfoo_process_fields)

text \<open>
  C5. \<^verbatim>\<open>create_callable\<close> takes exactly one parameter, a string, given as the first
  positional argument or as the named argument \<^verbatim>\<open>filename\<close> (\<open>spec_filename\<close>). Any other
  argument shape fails with a \<^verbatim>\<open>TypeError\<close> and nothing but the argument parsing is done.
  A string of that shape is accepted and is the file passed to \<^verbatim>\<open>dlopen\<close>, unless it has
  an embedded null character, which the format unit \<^verbatim>\<open>s\<close> refuses with a
  \<^verbatim>\<open>ValueError\<close>.
\<close>

theorem create_callable_argument_shape:
  "(spec_filename args kwargs = None \<longrightarrow>
      fst (create_callable self args kwargs s) = NULL \<and>
      map_option fst (py_error (snd (create_callable self args kwargs s))) = Some PyExc_TypeError \<and>
      new_calls s (snd (create_callable self args kwargs s)) = [Call_PyArg_ParseTupleAndKeywords]) \<and>
   (\<forall>u. spec_filename args kwargs = Some u \<and> CHR 0x00 \<in> set u \<longrightarrow>
      fst (create_callable self args kwargs s) = NULL \<and>
      map_option fst (py_error (snd (create_callable self args kwargs s))) = Some PyExc_ValueError \<and>
      new_calls s (snd (create_callable self args kwargs s)) = [Call_PyArg_ParseTupleAndKeywords]) \<and>
   (\<forall>u. spec_filename args kwargs = Some u \<and> CHR 0x00 \<notin> set u \<longrightarrow>
      take 2 (new_calls s (snd (create_callable self args kwargs s))) =
        [Call_PyArg_ParseTupleAndKeywords, Call_dlopen u RTLD_LAZY])"
proof (intro conjI impI allI)
  assume "spec_filename args kwargs = None"
  from parsed_filename_rejected [OF this] obtain m
    where m: "parsed_filename args kwargs = Inl (PyExc_TypeError, m)" ..
  show "fst (create_callable self args kwargs s) = NULL"
    and "map_option fst (py_error (snd (create_callable self args kwargs s))) = Some PyExc_TypeError"
    and "new_calls s (snd (create_callable self args kwargs s)) = [Call_PyArg_ParseTupleAndKeywords]"
    by (simp_all add: create_callable_bad_arguments [OF m] new_calls_def)
next
  fix u
  assume "spec_filename args kwargs = Some u \<and> CHR 0x00 \<in> set u"
  with parsed_filename_accepted [of args kwargs u]
  have m: "parsed_filename args kwargs = Inl (PyExc_ValueError, ''embedded null character'')"
    by simp
  show "fst (create_callable self args kwargs s) = NULL"
    and "map_option fst (py_error (snd (create_callable self args kwargs s))) = Some PyExc_ValueError"
    and "new_calls s (snd (create_callable self args kwargs s)) = [Call_PyArg_ParseTupleAndKeywords]"
    by (simp_all add: create_callable_bad_arguments [OF m] new_calls_def)
next
  fix u
  assume "spec_filename args kwargs = Some u \<and> CHR 0x00 \<notin> set u"
  then have p: "parsed_filename args kwargs = Inr u"
    by (simp add: parsed_filename_iff)
  show "take 2 (new_calls s (snd (create_callable self args kwargs s))) =
        [Call_PyArg_ParseTupleAndKeywords, Call_dlopen u RTLD_LAZY]"
  proof (cases rule: create_callable_paths [where args = args and kwargs = kwargs and s = s])
    case (bad_arguments e)
    with p show ?thesis by simp
  next
    case (open_failed filename diag)
    with p show ?thesis
      by (simp add: create_callable_open_failed [OF open_failed] new_calls_def)
  next
    case (symbol_failed filename h diag)
    with p show ?thesis
      by (simp add: create_callable_symbol_failed [OF symbol_failed] new_calls_def)
  next
    case (symbol_null filename h)
    with p show ?thesis
      by (simp add: create_callable_symbol_null [OF symbol_null] new_calls_def)
  next
    case (resolved filename h a)
    with p show ?thesis
      by (simp add: create_callable_resolved [OF resolved] PyCFunction_NewEx_frame new_calls_def)
  qed
qed


theorem create_callable_argument_shape_witness:
  "spec_filename [PyUnicode ''libfoo.so''] NULL = Some ''libfoo.so'' \<and>
   take 2 (new_calls libfoo_process
     (snd (create_callable PyNone [PyUnicode ''libfoo.so''] NULL libfoo_process))) =
     [Call_PyArg_ParseTupleAndKeywords, Call_dlopen ''libfoo.so'' RTLD_LAZY] \<and>
   spec_filename [] (Ptr [(''filename'', PyUnicode ''libfoo.so'')]) = Some ''libfoo.so'' \<and>
   take 2 (new_calls libfoo_process
     (snd (create_callable PyNone [] (Ptr [(''filename'', PyUnicode ''libfoo.so'')]) libfoo_process))) =
     [Call_PyArg_ParseTupleAndKeywords, Call_dlopen ''libfoo.so'' RTLD_LAZY] \<and>
   spec_filename [PyBytes ''libfoo.so''] NULL = None \<and>
   fst (create_callable PyNone [PyBytes ''libfoo.so''] NULL libfoo_process) = NULL \<and>
   spec_filename [] (Ptr [(''path'', PyUnicode ''libfoo.so'')]) = None \<and>
   fst (create_callable PyNone [] (Ptr [(''path'', PyUnicode ''libfoo.so'')]) libfoo_process) = NULL \<and>
   spec_filename [PyUnicode ''libfoo.so'', PyUnicode ''libbar.so''] NULL = None \<and>
   fst (create_callable PyNone [PyUnicode ''libfoo.so'', PyUnicode ''libbar.so''] NULL
     libfoo_process) = NULL \<and>
   spec_filename [PyUnicode [CHR ''a'', CHR 0x00]] NULL = Some [CHR ''a'', CHR 0x00] \<and>
   map_option fst (py_error (snd (create_callable PyNone [PyUnicode [CHR ''a'', CHR 0x00]] NULL
     libfoo_process))) = Some PyExc_ValueError"
  using
    create_callable_argument_shape [of "[PyUnicode ''libfoo.so'']" NULL PyNone libfoo_process]
    create_callable_argument_shape [of "[]" "Ptr [(''filename'', PyUnicode ''libfoo.so'')]" PyNone
      libfoo_process]
    create_callable_argument_shape [of "[PyBytes ''libfoo.so'']" NULL PyNone libfoo_process]
    create_callable_argument_shape [of "[]" "Ptr [(''path'', PyUnicode ''libfoo.so'')]" PyNone
      libfoo_process]
    create_callable_argument_shape [of "[PyUnicode ''libfoo.so'', PyUnicode ''libbar.so'']" NULL
      PyNone libfoo_process]
    create_callable_argument_shape [of "[PyUnicode [CHR ''a'', CHR 0x00]]" NULL PyNone
      libfoo_process]
  by (simp add: spec_filename_examples)

text \<open>
  C6. On every path of \<^verbatim>\<open>create_callable\<close> the handle is never released: the call makes
  no \<^verbatim>\<open>dlclose\<close>, no reference count of the loader goes down, and whenever the open
  succeeded (the lookup failing or not) the object's reference count is one higher when
  the call returns.
\<close>

theorem create_callable_never_releases:
  "filter is_dlclose (new_calls s (snd (create_callable self args kwargs s))) = [] \<and>
   (\<forall>h. dl_refcount s h \<le> dl_refcount (snd (create_callable self args kwargs s)) h) \<and>
   (\<forall>filename h. parsed_filename args kwargs = Inr filename \<and>
      dl_objects s filename RTLD_LAZY = Inr h \<longrightarrow>
      dl_refcount (snd (create_callable self args kwargs s)) h = Suc (dl_refcount s h))"
proof (cases rule: create_callable_paths [where args = args and kwargs = kwargs and s = s])
  case (bad_arguments e)
  then show ?thesis
    by (simp add: create_callable_bad_arguments [OF bad_arguments] new_calls_def)
next
  case (open_failed filename diag)
  then show ?thesis
    by (simp add: create_callable_open_failed [OF open_failed] new_calls_def)
next
  case (symbol_failed filename h diag)
  then show ?thesis
    by (simp add: create_callable_symbol_failed [OF symbol_failed] new_calls_def)
next
  case (symbol_null filename h)
  then show ?thesis
    by (simp add: create_callable_symbol_null [OF symbol_null] new_calls_def)
next
  case (resolved filename h a)
  then show ?thesis
    by (simp add: create_callable_resolved [OF resolved] PyCFunction_NewEx_frame new_calls_def)
qed

theorem create_callable_never_releases_witness:
  "parsed_filename [PyUnicode ''libfoo.so''] NULL = Inr ''libfoo.so'' \<and>
   dl_objects libfoo_process ''libfoo.so'' RTLD_LAZY = Inr 1 \<and>
   dl_refcount libfoo_process 1 = 0 \<and>
   dl_refcount (snd (create_callable PyNone [PyUnicode ''libfoo.so''] NULL libfoo_process)) 1 = 1 \<and>
   parsed_filename [PyUnicode ''libbar.so''] NULL = Inr ''libbar.so'' \<and>
   dl_objects libfoo_process ''libbar.so'' RTLD_LAZY = Inr 2 \<and>
   fst (create_callable PyNone [PyUnicode ''libbar.so''] NULL libfoo_process) = NULL \<and>
   dl_refcount (snd (create_callable PyNone [PyUnicode ''libbar.so''] NULL libfoo_process)) 2 = 1"
  using
    create_callable_never_releases [of libfoo_process PyNone "[PyUnicode ''libfoo.so'']" NULL]
    create_callable_never_releases [of libfoo_process PyNone "[PyUnicode ''libbar.so'']" NULL]
    create_callable_symbol_failed [OF libbar_positional libbar_opens libbar_symbol, of PyNone]
  by (simp add: libfoo_positional libbar_positional libfoo_opens libbar_opens libfoo_process_fields)

text \<open>
  C7. For a valid path (the object opens and exports at \<open>a\<close> a descriptor \<open>d\<close> whose
  flags select a calling convention) and a heap with room for two objects, two calls of
  \<^verbatim>\<open>create_callable\<close> in a row both succeed and return two distinct objects. Both are
  builtin-function objects over the descriptor at \<open>a\<close> without receiver, and a call of
  either dispatches to the same entry point \<open>ml_meth d\<close> by the same flags. The object has
  been opened twice.
\<close>

theorem create_callable_twice:
  assumes "parsed_filename args kwargs = Inr filename"
    and "dl_objects s filename RTLD_LAZY = Inr h"
    and "dl_symbols s h ''__qq_methoddef'' = Inr (Ptr a)"
    and "dl_memory s a = Some d"
    and "callable_flags (ml_flags d)"
    and "Suc (length (py_heap s)) < py_capacity s"
  shows "fst (create_callable self args kwargs s) = Ptr (length (py_heap s)) \<and>
         fst (create_callable self args kwargs (snd (create_callable self args kwargs s))) =
           Ptr (Suc (length (py_heap s))) \<and>
         fst (create_callable self args kwargs s) \<noteq>
           fst (create_callable self args kwargs (snd (create_callable self args kwargs s))) \<and>
         py_heap (snd (create_callable self args kwargs (snd (create_callable self args kwargs s)))) =
           py_heap s @ [PyCFunction (Ptr a) NULL NULL, PyCFunction (Ptr a) NULL NULL] \<and>
         PyCFunction_GET_FUNCTION
           (snd (create_callable self args kwargs (snd (create_callable self args kwargs s))))
           (length (py_heap s)) = Some (ml_meth d) \<and>
         PyCFunction_GET_FUNCTION
           (snd (create_callable self args kwargs (snd (create_callable self args kwargs s))))
           (Suc (length (py_heap s))) = Some (ml_meth d) \<and>
         PyCFunction_GET_FLAGS
           (snd (create_callable self args kwargs (snd (create_callable self args kwargs s))))
           (length (py_heap s)) = Some (ml_flags d) \<and>
         PyCFunction_GET_FLAGS
           (snd (create_callable self args kwargs (snd (create_callable self args kwargs s))))
           (Suc (length (py_heap s))) = Some (ml_flags d) \<and>
         dl_refcount (snd (create_callable self args kwargs (snd (create_callable self args kwargs s)))) h =
           Suc (Suc (dl_refcount s h))"
proof -
  let ?s1 = "snd (create_callable self args kwargs s)"
  from assms(6) have room: "length (py_heap s) < py_capacity s" by simp
  note first = create_callable_loaded [OF assms(1-5) room, of self]
  have o1: "dl_objects ?s1 filename RTLD_LAZY = Inr h"
    and y1: "dl_symbols ?s1 h ''__qq_methoddef'' = Inr (Ptr a)"
    and m1: "dl_memory ?s1 a = Some d"
    and r1: "length (py_heap ?s1) < py_capacity ?s1"
    using assms by (simp_all add: first)
  note second = create_callable_loaded [OF assms(1) o1 y1 m1 assms(5) r1, of self]
  have heap: "py_heap (snd (create_callable self args kwargs ?s1)) =
      py_heap s @ [PyCFunction (Ptr a) NULL NULL, PyCFunction (Ptr a) NULL NULL]"
    and mem: "dl_memory (snd (create_callable self args kwargs ?s1)) a = Some d"
    and cnt: "dl_refcount (snd (create_callable self args kwargs ?s1)) h =
      Suc (Suc (dl_refcount s h))"
    and ref2: "fst (create_callable self args kwargs ?s1) = Ptr (Suc (length (py_heap s)))"
    using assms(4) by (simp_all add: second) (simp_all add: first)
  have ref1: "fst (create_callable self args kwargs s) = Ptr (length (py_heap s))"
    by (simp add: first)
  from heap mem cnt ref1 ref2 assms(4) show ?thesis
    by (simp add: PyCFunction_GET_FUNCTION_def PyCFunction_GET_FLAGS_def nth_append)
qed

theorem create_callable_twice_witness:
  "parsed_filename [PyUnicode ''libfoo.so''] NULL = Inr ''libfoo.so'' \<and>
   dl_objects libfoo_process ''libfoo.so'' RTLD_LAZY = Inr 1 \<and>
   dl_symbols libfoo_process 1 ''__qq_methoddef'' = Inr (Ptr 4096) \<and>
   dl_memory libfoo_process 4096 =
     Some \<lparr>ml_name = ''foo'', ml_meth = 8192, ml_flags = 4, ml_doc = NULL\<rparr> \<and>
   callable_flags 4 \<and>
   fst (create_callable PyNone [PyUnicode ''libfoo.so''] NULL libfoo_process) = Ptr 0 \<and>
   fst (create_callable PyNone [PyUnicode ''libfoo.so''] NULL
     (snd (create_callable PyNone [PyUnicode ''libfoo.so''] NULL libfoo_process))) = Ptr 1 \<and>
   py_heap (snd (create_callable PyNone [PyUnicode ''libfoo.so''] NULL
     (snd (create_callable PyNone [PyUnicode ''libfoo.so''] NULL libfoo_process)))) =
     [PyCFunction (Ptr 4096) NULL NULL, PyCFunction (Ptr 4096) NULL NULL] \<and>
   PyCFunction_GET_FUNCTION (snd (create_callable PyNone [PyUnicode ''libfoo.so''] NULL
     (snd (create_callable PyNone [PyUnicode ''libfoo.so''] NULL libfoo_process)))) 0 = Some 8192 \<and>
   PyCFunction_GET_FUNCTION (snd (create_callable PyNone [PyUnicode ''libfoo.so''] NULL
     (snd (create_callable PyNone [PyUnicode ''libfoo.so''] NULL libfoo_process)))) 1 = Some 8192"
proof -
  have room: "Suc (length (py_heap libfoo_process)) < py_capacity libfoo_process"
    by (simp add: libfoo_process_def)
  have flags: "callable_flags (ml_flags \<lparr>ml_name = ''foo'', ml_meth = 8192, ml_flags = 4,
      ml_doc = NULL\<rparr>)"
    by (simp add: libfoo_descriptor)
  from create_callable_twice [OF libfoo_positional libfoo_opens libfoo_symbol
      libfoo_descriptor(1) flags room, of PyNone]
    libfoo_positional libfoo_opens libfoo_symbol libfoo_descriptor
  show ?thesis
    by (simp add: libfoo_process_fields)
qed

text \<open>
  C8, as stated, has a callable constructed for every non-null resolved address, with the
  flags not inspected. \<^verbatim>\<open>PyCFunction_NewEx\<close> does inspect them: for a descriptor with the
  flags 0 at the resolved address the call fails with a \<^verbatim>\<open>SystemError\<close> and constructs
  nothing.
\<close>

theorem create_callable_descriptor_counterexample:
  "parsed_filename [PyUnicode ''libfoo.so''] NULL = Inr ''libfoo.so'' \<and>
   dl_objects badflags_process ''libfoo.so'' RTLD_LAZY = Inr 1 \<and>
   dl_symbols badflags_process 1 ''__qq_methoddef'' = Inr (Ptr 4096) \<and>
   dl_memory badflags_process 4096 =
     Some \<lparr>ml_name = ''foo'', ml_meth = 8192, ml_flags = 0, ml_doc = NULL\<rparr> \<and>
   fst (create_callable PyNone [PyUnicode ''libfoo.so''] NULL badflags_process) = NULL \<and>
   map_option fst (py_error (snd (create_callable PyNone [PyUnicode ''libfoo.so''] NULL
     badflags_process))) = Some PyExc_SystemError \<and>
   py_heap (snd (create_callable PyNone [PyUnicode ''libfoo.so''] NULL badflags_process)) = []"
proof -
  have o: "dl_objects badflags_process ''libfoo.so'' RTLD_LAZY = Inr 1"
    and y: "dl_symbols badflags_process 1 ''__qq_methoddef'' = Inr (Ptr 4096)"
    by (simp_all add: badflags_process_def libfoo_process_def)
  note r = create_callable_resolved [OF libfoo_positional o y, of PyNone]
  have m: "dl_memory (badflags_process
      \<lparr>dl_refcount := (dl_refcount badflags_process)(1 := Suc (dl_refcount badflags_process 1)),
        calls := calls badflags_process @ [Call_PyArg_ParseTupleAndKeywords,
          Call_dlopen ''libfoo.so'' RTLD_LAZY, Call_dlsym 1 ''__qq_methoddef''],
        dl_error := NULL\<rparr>) 4096 =
      Some \<lparr>ml_name = ''foo'', ml_meth = 8192, ml_flags = 0, ml_doc = NULL\<rparr>"
    by (simp add: badflags_process_fields)
  have f: "callable_flags (ml_flags \<lparr>ml_name = ''foo'', ml_meth = 8192, ml_flags = 0,
      ml_doc = NULL\<rparr>) = False"
    by (simp add: badflags_process_fields)
  note n = PyCFunction_NewEx_bad_flags [OF m f, of NULL NULL]
  have "fst (create_callable PyNone [PyUnicode ''libfoo.so''] NULL badflags_process) = NULL"
    and "map_option fst (py_error (snd (create_callable PyNone [PyUnicode ''libfoo.so''] NULL
      badflags_process))) = Some PyExc_SystemError"
    and "py_heap (snd (create_callable PyNone [PyUnicode ''libfoo.so''] NULL
      badflags_process)) = []"
    using n by (simp_all add: r badflags_process_fields)
  with o y libfoo_positional badflags_process_fields(5) show ?thesis
    by blast
qed

text \<open>
  C8, amended. \<^verbatim>\<open>create_callable\<close> itself validates nothing of the descriptor: for every
  non-null resolved address \<open>a\<close> its next and last library call is
  \<^verbatim>\<open>PyCFunction_NewEx\<close> on that very address, and the descriptor memory is never
  written. What becomes of the call is what that constructor does with the flags it reads:
  for a descriptor whose flags select a calling convention (and a heap with room) the
  callable is constructed over \<open>a\<close>, whatever the name, the entry point and the
  documentation of the descriptor are; for other flags the call fails with a
  \<^verbatim>\<open>SystemError\<close> and constructs nothing.
\<close>

theorem create_callable_passes_descriptor_on:
  assumes "parsed_filename args kwargs = Inr filename"
    and "dl_objects s filename RTLD_LAZY = Inr h"
    and "dl_symbols s h ''__qq_methoddef'' = Inr (Ptr a)"
  shows "new_calls s (snd (create_callable self args kwargs s)) =
           [Call_PyArg_ParseTupleAndKeywords, Call_dlopen filename RTLD_LAZY,
            Call_dlsym h ''__qq_methoddef'', Call_PyCFunction_NewEx (Ptr a) NULL NULL] \<and>
         dl_memory (snd (create_callable self args kwargs s)) = dl_memory s \<and>
         (\<forall>d. dl_memory s a = Some d \<and> callable_flags (ml_flags d) \<and>
            length (py_heap s) < py_capacity s \<longrightarrow>
            fst (create_callable self args kwargs s) = Ptr (length (py_heap s)) \<and>
            py_heap (snd (create_callable self args kwargs s)) =
              py_heap s @ [PyCFunction (Ptr a) NULL NULL] \<and>
            (\<forall>name meth doc.
               create_callable self args kwargs
                 (s\<lparr>dl_memory := (dl_memory s)
                    (a \<mapsto> d\<lparr>ml_name := name, ml_meth := meth, ml_doc := doc\<rparr>)\<rparr>) =
               (fst (create_callable self args kwargs s),
                (snd (create_callable self args kwargs s))
                  \<lparr>dl_memory := (dl_memory s)
                     (a \<mapsto> d\<lparr>ml_name := name, ml_meth := meth, ml_doc := doc\<rparr>)\<rparr>))) \<and>
         (\<forall>d. dl_memory s a = Some d \<and> callable_flags (ml_flags d) = False \<longrightarrow>
            fst (create_callable self args kwargs s) = NULL \<and>
            map_option fst (py_error (snd (create_callable self args kwargs s))) =
              Some PyExc_SystemError \<and>
            py_heap (snd (create_callable self args kwargs s)) = py_heap s)"
proof (intro conjI allI impI)
  show "new_calls s (snd (create_callable self args kwargs s)) =
           [Call_PyArg_ParseTupleAndKeywords, Call_dlopen filename RTLD_LAZY,
            Call_dlsym h ''__qq_methoddef'', Call_PyCFunction_NewEx (Ptr a) NULL NULL]"
    and "dl_memory (snd (create_callable self args kwargs s)) = dl_memory s"
    by (simp_all add: create_callable_resolved [OF assms] PyCFunction_NewEx_frame new_calls_def)
next
  fix d
  assume "dl_memory s a = Some d \<and> callable_flags (ml_flags d) \<and>
    length (py_heap s) < py_capacity s"
  then have d: "dl_memory s a = Some d" "callable_flags (ml_flags d)"
    "length (py_heap s) < py_capacity s"
    by simp_all
  note l = create_callable_loaded [OF assms d, of self]
  show "fst (create_callable self args kwargs s) = Ptr (length (py_heap s))"
    and "py_heap (snd (create_callable self args kwargs s)) =
      py_heap s @ [PyCFunction (Ptr a) NULL NULL]"
    by (simp_all add: l)
  fix name meth doc
  let ?d = "d\<lparr>ml_name := name, ml_meth := meth, ml_doc := doc\<rparr>"
  let ?s = "s\<lparr>dl_memory := (dl_memory s)(a \<mapsto> ?d)\<rparr>"
  have o: "dl_objects ?s filename RTLD_LAZY = Inr h"
    and y: "dl_symbols ?s h ''__qq_methoddef'' = Inr (Ptr a)"
    and m: "dl_memory ?s a = Some ?d"
    and f: "callable_flags (ml_flags ?d)"
    and r: "length (py_heap ?s) < py_capacity ?s"
    using assms d by simp_all
  show "create_callable self args kwargs ?s =
      (fst (create_callable self args kwargs s),
       (snd (create_callable self args kwargs s))\<lparr>dl_memory := (dl_memory s)(a \<mapsto> ?d)\<rparr>)"
    by (simp add: create_callable_loaded [OF assms(1) o y m f r] l)
next
  fix d
  assume "dl_memory s a = Some d \<and> callable_flags (ml_flags d) = False"
  then have d: "dl_memory s a = Some d" "callable_flags (ml_flags d) = False"
    by simp_all
  let ?s3 = "s\<lparr>dl_refcount := (dl_refcount s)(h := Suc (dl_refcount s h)),
    calls := calls s @ [Call_PyArg_ParseTupleAndKeywords,
      Call_dlopen filename RTLD_LAZY, Call_dlsym h ''__qq_methoddef''],
    dl_error := NULL\<rparr>"
  from d have m: "dl_memory ?s3 a = Some d" by simp
  from PyCFunction_NewEx_bad_flags [OF m d(2), of NULL NULL]
  show "fst (create_callable self args kwargs s) = NULL"
    and "map_option fst (py_error (snd (create_callable self args kwargs s))) =
      Some PyExc_SystemError"
    and "py_heap (snd (create_callable self args kwargs s)) = py_heap s"
    by (simp_all add: create_callable_resolved [OF assms])
qed

theorem create_callable_passes_descriptor_on_witness:
  "parsed_filename [PyUnicode ''libfoo.so''] NULL = Inr ''libfoo.so'' \<and>
   dl_objects libfoo_process ''libfoo.so'' RTLD_LAZY = Inr 1 \<and>
   dl_symbols libfoo_process 1 ''__qq_methoddef'' = Inr (Ptr 4096) \<and>
   dl_memory libfoo_process 4096 =
     Some \<lparr>ml_name = ''foo'', ml_meth = 8192, ml_flags = 4, ml_doc = NULL\<rparr> \<and>
   callable_flags 4 \<and>
   new_calls libfoo_process (snd (create_callable PyNone [PyUnicode ''libfoo.so''] NULL
     libfoo_process)) =
     [Call_PyArg_ParseTupleAndKeywords, Call_dlopen ''libfoo.so'' RTLD_LAZY,
      Call_dlsym 1 ''__qq_methoddef'', Call_PyCFunction_NewEx (Ptr 4096) NULL NULL] \<and>
   fst (create_callable PyNone [PyUnicode ''libfoo.so''] NULL libfoo_process) = Ptr 0 \<and>
   py_heap (snd (create_callable PyNone [PyUnicode ''libfoo.so''] NULL libfoo_process)) =
     [PyCFunction (Ptr 4096) NULL NULL]"
  using create_callable_passes_descriptor_on [OF libfoo_positional libfoo_opens libfoo_symbol,
      of PyNone]
    libfoo_positional libfoo_opens libfoo_symbol libfoo_descriptor
  by (simp add: libfoo_process_fields)

text \<open>
  C9, as stated, counts two failure points, the open and the symbol resolution. There are
  two more. A call without arguments fails with a \<^verbatim>\<open>TypeError\<close> in the argument parsing,
  before any open. A call on an object whose descriptor has the flags 0 fails with a
  \<^verbatim>\<open>SystemError\<close> in \<^verbatim>\<open>PyCFunction_NewEx\<close>, after an open and a symbol resolution that
  both succeeded.
\<close>

theorem create_callable_two_failure_points_counterexample:
  "fst (create_callable PyNone [] NULL libfoo_process) = NULL \<and>
   map_option fst (py_error (snd (create_callable PyNone [] NULL libfoo_process))) =
     Some PyExc_TypeError \<and>
   new_calls libfoo_process (snd (create_callable PyNone [] NULL libfoo_process)) =
     [Call_PyArg_ParseTupleAndKeywords] \<and>
   fst (create_callable PyNone [PyUnicode ''libfoo.so''] NULL badflags_process) = NULL \<and>
   map_option fst (py_error (snd (create_callable PyNone [PyUnicode ''libfoo.so''] NULL
     badflags_process))) = Some PyExc_SystemError \<and>
   new_calls badflags_process (snd (create_callable PyNone [PyUnicode ''libfoo.so''] NULL
     badflags_process)) =
     [Call_PyArg_ParseTupleAndKeywords, Call_dlopen ''libfoo.so'' RTLD_LAZY,
      Call_dlsym 1 ''__qq_methoddef'', Call_PyCFunction_NewEx (Ptr 4096) NULL NULL]"
proof -
  have o: "dl_objects badflags_process ''libfoo.so'' RTLD_LAZY = Inr 1"
    and y: "dl_symbols badflags_process 1 ''__qq_methoddef'' = Inr (Ptr 4096)"
    by (simp_all add: badflags_process_def libfoo_process_def)
  note r = create_callable_resolved [OF libfoo_positional o y, of PyNone]
  have m: "dl_memory (badflags_process
      \<lparr>dl_refcount := (dl_refcount badflags_process)(1 := Suc (dl_refcount badflags_process 1)),
        calls := calls badflags_process @ [Call_PyArg_ParseTupleAndKeywords,
          Call_dlopen ''libfoo.so'' RTLD_LAZY, Call_dlsym 1 ''__qq_methoddef''],
        dl_error := NULL\<rparr>) 4096 =
      Some \<lparr>ml_name = ''foo'', ml_meth = 8192, ml_flags = 0, ml_doc = NULL\<rparr>"
    by (simp add: badflags_process_fields)
  have f: "callable_flags (ml_flags \<lparr>ml_name = ''foo'', ml_meth = 8192, ml_flags = 0,
      ml_doc = NULL\<rparr>) = False"
    by (simp add: badflags_process_fields)
  have bad: "fst (create_callable PyNone [PyUnicode ''libfoo.so''] NULL badflags_process) = NULL"
    "map_option fst (py_error (snd (create_callable PyNone [PyUnicode ''libfoo.so''] NULL
      badflags_process))) = Some PyExc_SystemError"
    "new_calls badflags_process (snd (create_callable PyNone [PyUnicode ''libfoo.so''] NULL
      badflags_process)) =
      [Call_PyArg_ParseTupleAndKeywords, Call_dlopen ''libfoo.so'' RTLD_LAZY,
       Call_dlsym 1 ''__qq_methoddef'', Call_PyCFunction_NewEx (Ptr 4096) NULL NULL]"
    using PyCFunction_NewEx_bad_flags [OF m f, of NULL NULL]
    by (simp_all add: r PyCFunction_NewEx_frame new_calls_def badflags_process_fields)
  have none: "fst (create_callable PyNone [] NULL libfoo_process) = NULL"
    "map_option fst (py_error (snd (create_callable PyNone [] NULL libfoo_process))) =
      Some PyExc_TypeError"
    "new_calls libfoo_process (snd (create_callable PyNone [] NULL libfoo_process)) =
      [Call_PyArg_ParseTupleAndKeywords]"
    by (simp_all add: create_callable_bad_arguments [OF no_arguments] new_calls_def)
  from none bad show ?thesis by blast
qed

text \<open>
  C9, amended. Every call of \<^verbatim>\<open>create_callable\<close> whose behaviour is defined is one of
  five linear sequences of library calls, four failures and one success: the argument
  parsing fails and nothing else is called; or one \<^verbatim>\<open>dlopen\<close> fails and its diagnostic
  is raised; or the \<^verbatim>\<open>dlopen\<close> succeeds, one \<^verbatim>\<open>dlsym\<close> does not find the symbol and
  its diagnostic is raised; or both succeed and \<^verbatim>\<open>PyCFunction_NewEx\<close> fails (flags that
  select no calling convention, or no memory); or all succeed and the callable is
  returned. Each failure ends the call with \<^verbatim>\<open>NULL\<close> and an exception, and no step is
  retried. The behaviour is undefined where the symbol's value is \<^verbatim>\<open>NULL\<close> or where no
  descriptor is at its address. On every path there is at most one open attempt and at
  most one resolution attempt.
\<close>

theorem create_callable_linear:
  "((\<exists>e. parsed_filename args kwargs = Inl e \<and>
       fst (create_callable self args kwargs s) = NULL \<and>
       py_error (snd (create_callable self args kwargs s)) = Some e \<and>
       py_undefined (snd (create_callable self args kwargs s)) = py_undefined s \<and>
       new_calls s (snd (create_callable self args kwargs s)) =
         [Call_PyArg_ParseTupleAndKeywords]) \<or>
    (\<exists>filename diag. parsed_filename args kwargs = Inr filename \<and>
       dl_objects s filename RTLD_LAZY = Inl diag \<and>
       fst (create_callable self args kwargs s) = NULL \<and>
       py_error (snd (create_callable self args kwargs s)) = Some (PyExc_OSError, diag) \<and>
       py_undefined (snd (create_callable self args kwargs s)) = py_undefined s \<and>
       new_calls s (snd (create_callable self args kwargs s)) =
         [Call_PyArg_ParseTupleAndKeywords, Call_dlopen filename RTLD_LAZY, Call_dlerror,
          Call_PyErr_SetString PyExc_OSError (Ptr diag)]) \<or>
    (\<exists>filename h diag. parsed_filename args kwargs = Inr filename \<and>
       dl_objects s filename RTLD_LAZY = Inr h \<and>
       dl_symbols s h ''__qq_methoddef'' = Inl diag \<and>
       fst (create_callable self args kwargs s) = NULL \<and>
       py_error (snd (create_callable self args kwargs s)) = Some (PyExc_OSError, diag) \<and>
       py_undefined (snd (create_callable self args kwargs s)) = py_undefined s \<and>
       new_calls s (snd (create_callable self args kwargs s)) =
         [Call_PyArg_ParseTupleAndKeywords, Call_dlopen filename RTLD_LAZY,
          Call_dlsym h ''__qq_methoddef'', Call_dlerror,
          Call_PyErr_SetString PyExc_OSError (Ptr diag)]) \<or>
    (\<exists>filename h a d. parsed_filename args kwargs = Inr filename \<and>
       dl_objects s filename RTLD_LAZY = Inr h \<and>
       dl_symbols s h ''__qq_methoddef'' = Inr (Ptr a) \<and>
       dl_memory s a = Some d \<and>
       (callable_flags (ml_flags d) = False \<and>
          map_option fst (py_error (snd (create_callable self args kwargs s))) =
            Some PyExc_SystemError \<or>
        py_capacity s \<le> length (py_heap s) \<and>
          map_option fst (py_error (snd (create_callable self args kwargs s))) =
            Some PyExc_MemoryError) \<and>
       fst (create_callable self args kwargs s) = NULL \<and>
       py_heap (snd (create_callable self args kwargs s)) = py_heap s \<and>
       py_undefined (snd (create_callable self args kwargs s)) = py_undefined s \<and>
       new_calls s (snd (create_callable self args kwargs s)) =
         [Call_PyArg_ParseTupleAndKeywords, Call_dlopen filename RTLD_LAZY,
          Call_dlsym h ''__qq_methoddef'', Call_PyCFunction_NewEx (Ptr a) NULL NULL]) \<or>
    (\<exists>filename h a d. parsed_filename args kwargs = Inr filename \<and>
       dl_objects s filename RTLD_LAZY = Inr h \<and>
       dl_symbols s h ''__qq_methoddef'' = Inr (Ptr a) \<and>
       dl_memory s a = Some d \<and> callable_flags (ml_flags d) \<and>
       length (py_heap s) < py_capacity s \<and>
       fst (create_callable self args kwargs s) = Ptr (length (py_heap s)) \<and>
       py_error (snd (create_callable self args kwargs s)) = py_error s \<and>
       py_undefined (snd (create_callable self args kwargs s)) = py_undefined s \<and>
       new_calls s (snd (create_callable self args kwargs s)) =
         [Call_PyArg_ParseTupleAndKeywords, Call_dlopen filename RTLD_LAZY,
          Call_dlsym h ''__qq_methoddef'', Call_PyCFunction_NewEx (Ptr a) NULL NULL]) \<or>
    (\<exists>filename h. parsed_filename args kwargs = Inr filename \<and>
       dl_objects s filename RTLD_LAZY = Inr h \<and>
       (dl_symbols s h ''__qq_methoddef'' = Inr NULL \<or>
        (\<exists>a. dl_symbols s h ''__qq_methoddef'' = Inr (Ptr a) \<and> dl_memory s a = None)) \<and>
       py_undefined (snd (create_callable self args kwargs s)))) \<and>
   length (filter is_dlopen (new_calls s (snd (create_callable self args kwargs s)))) \<le> 1 \<and>
   length (filter is_dlsym (new_calls s (snd (create_callable self args kwargs s)))) \<le> 1"
proof (cases rule: create_callable_paths [where args = args and kwargs = kwargs and s = s])
  case (bad_arguments e)
  then show ?thesis
    by (simp add: create_callable_bad_arguments [OF bad_arguments] new_calls_def)
next
  case (open_failed filename diag)
  then show ?thesis
    by (simp add: create_callable_open_failed [OF open_failed] new_calls_def)
next
  case (symbol_failed filename h diag)
  then show ?thesis
    by (simp add: create_callable_symbol_failed [OF symbol_failed] new_calls_def)
next
  case (symbol_null filename h)
  then show ?thesis
    by (simp add: create_callable_symbol_null [OF symbol_null] new_calls_def)
next
  case (resolved filename h a)
  let ?s3 = "s\<lparr>dl_refcount := (dl_refcount s)(h := Suc (dl_refcount s h)),
    calls := calls s @ [Call_PyArg_ParseTupleAndKeywords,
      Call_dlopen filename RTLD_LAZY, Call_dlsym h ''__qq_methoddef''],
    dl_error := NULL\<rparr>"
  note r = create_callable_resolved [OF resolved, of self]
  show ?thesis
  proof (cases "dl_memory s a")
    case None
    then have "dl_memory ?s3 a = None" by simp
    from PyCFunction_NewEx_no_descriptor [OF this, of NULL NULL] resolved None
    show ?thesis
      by (simp add: r new_calls_def)
  next
    case (Some d)
    then have m: "dl_memory ?s3 a = Some d" by simp
    show ?thesis
    proof (cases "callable_flags (ml_flags d)")
      case False
      then have f: "callable_flags (ml_flags d) = False" by simp
      from PyCFunction_NewEx_bad_flags [OF m f, of NULL NULL] resolved Some f
      show ?thesis
        by (simp add: r PyCFunction_NewEx_frame new_calls_def)
    next
      case True
      show ?thesis
      proof (cases "length (py_heap s) < py_capacity s")
        case room: True
        from resolved Some True room show ?thesis
          by (simp add: create_callable_loaded [OF resolved Some True room] new_calls_def)
      next
        case False
        then have "py_capacity ?s3 \<le> length (py_heap ?s3)" by simp
        from PyCFunction_NewEx_no_memory [OF m True this, of NULL NULL] resolved Some True False
        show ?thesis
          by (simp add: r new_calls_def)
      qed
    qed
  qed
qed

theorem create_callable_linear_witness:
  "new_calls libfoo_process (snd (create_callable PyNone [PyUnicode ''libbar.so''] NULL
     libfoo_process)) =
     [Call_PyArg_ParseTupleAndKeywords, Call_dlopen ''libbar.so'' RTLD_LAZY,
      Call_dlsym 2 ''__qq_methoddef'', Call_dlerror,
      Call_PyErr_SetString PyExc_OSError (Ptr ''undefined symbol: __qq_methoddef'')] \<and>
   fst (create_callable PyNone [PyUnicode ''libbar.so''] NULL libfoo_process) = NULL"
  using create_callable_linear [of "[PyUnicode ''libbar.so'']" NULL PyNone libfoo_process]
  by (simp add: libbar_positional libbar_opens libbar_symbol libfoo_process_fields)

text \<open>
  C10. When the argument parsing fails, \<^verbatim>\<open>create_callable\<close> returns \<^verbatim>\<open>NULL\<close> with the
  parser's exception set, the parsing is the only library call made (no \<^verbatim>\<open>dlopen\<close>), and
  the loader's state (its table of loaded objects and its pending diagnostic) and the
  object heap are as before the call.
\<close>

theorem create_callable_bad_arguments_no_load:
  assumes "parsed_filename args kwargs = Inl e"
  shows "fst (create_callable self args kwargs s) = NULL \<and>
         py_error (snd (create_callable self args kwargs s)) = Some e \<and>
         new_calls s (snd (create_callable self args kwargs s)) =
           [Call_PyArg_ParseTupleAndKeywords] \<and>
         dl_refcount (snd (create_callable self args kwargs s)) = dl_refcount s \<and>
         dl_error (snd (create_callable self args kwargs s)) = dl_error s \<and>
         dl_objects (snd (create_callable self args kwargs s)) = dl_objects s \<and>
         dl_symbols (snd (create_callable self args kwargs s)) = dl_symbols s \<and>
         dl_memory (snd (create_callable self args kwargs s)) = dl_memory s \<and>
         py_heap (snd (create_callable self args kwargs s)) = py_heap s"
  by (simp add: create_callable_bad_arguments [OF assms] new_calls_def)


theorem create_callable_bad_arguments_no_load_witness:
  "fst (create_callable PyNone [] NULL libfoo_process) = NULL \<and>
   new_calls libfoo_process (snd (create_callable PyNone [] NULL libfoo_process)) =
     [Call_PyArg_ParseTupleAndKeywords] \<and>
   fst (create_callable PyNone [PyLong 7] NULL libfoo_process) = NULL \<and>
   py_error (snd (create_callable PyNone [PyLong 7] NULL libfoo_process)) =
     Some (PyExc_TypeError, ''argument 1 must be str'') \<and>
   fst (create_callable PyNone [PyUnicode ''libfoo.so''] (Ptr [(''mode'', PyLong 1)])
     libfoo_process) = NULL \<and>
   dl_refcount (snd (create_callable PyNone [PyUnicode ''libfoo.so''] (Ptr [(''mode'', PyLong 1)])
     libfoo_process)) 1 = 0"
  using create_callable_bad_arguments_no_load [OF no_arguments, of PyNone libfoo_process]
    create_callable_bad_arguments_no_load [OF not_a_string, of PyNone libfoo_process]
    create_callable_bad_arguments_no_load [OF unexpected_argument, of PyNone libfoo_process]
  by (simp add: libfoo_process_fields)

end
